theory Spec2Isabelle
  imports Complex_Main "HOL-Library.Sublist" "HOL-Library.Finite_Map"
begin

section \<open>The library functions the program calls\<close>

text \<open>
  The program (\<^verbatim>\<open>dsa3.py\<close>) calls four functions of the Python standard library whose
  behaviour is not part of the repository: \<^verbatim>\<open>str.lower\<close>, \<^verbatim>\<open>datetime.fromisoformat\<close>,
  the subtraction of two datetimes followed by \<^verbatim>\<open>total_seconds()\<close>, and
  \<^verbatim>\<open>strftime("%H:%M:%S")\<close>. They are taken as parameters, bundled in a record, so that
  every theorem below holds whatever these functions compute.
  \<^item> \<open>fromisoformat\<close> returns \<open>None\<close> where the library raises \<^verbatim>\<open>ValueError\<close>;
  \<^item> \<open>total_seconds a b\<close> is \<^verbatim>\<open>(a - b).total_seconds()\<close>, and \<open>None\<close> where the
    subtraction raises \<^verbatim>\<open>TypeError\<close> (a naive and an aware datetime).
  Python floats are modelled as reals, Python integers as \<open>int\<close>.
\<close>

record 'd pylib =
  str_lower :: "string \<Rightarrow> string"
  fromisoformat :: "string \<Rightarrow> 'd option"
  total_seconds :: "'d \<Rightarrow> 'd \<Rightarrow> real option"
  strftime_HMS :: "'d \<Rightarrow> string"

section \<open>AIMSKnowledgeBase\<close>

record procedure =
  proc_keywords :: "string list"
  proc_category :: string
  proc_response :: string

text \<open>
  The object \<^verbatim>\<open>AIMSKnowledgeBase\<close>: its ordered list \<^verbatim>\<open>self.procedures\<close> and the text
  returned by \<^verbatim>\<open>get_default_help\<close>.
\<close>

record knowledge_base =
  procedures :: "procedure list"
  default_help :: string

text \<open>\<^verbatim>\<open>keyword in user_msg_lower\<close>: the substring test of Python strings.\<close>

fun starts_with :: "string \<Rightarrow> string \<Rightarrow> bool" where
  "starts_with [] s = True"
| "starts_with (k # ks) [] = False"
| "starts_with (k # ks) (c # cs) = (k = c \<and> starts_with ks cs)"

fun str_in :: "string \<Rightarrow> string \<Rightarrow> bool" where
  "str_in k [] = (k = [])"
| "str_in k (c # cs) = (starts_with k (c # cs) \<or> str_in k cs)"

text \<open>\<^verbatim>\<open>any(keyword in user_msg_lower for keyword in procedure['keywords'])\<close>\<close>

fun any_keyword_in :: "string list \<Rightarrow> string \<Rightarrow> bool" where
  "any_keyword_in [] s = False"
| "any_keyword_in (k # ks) s = (str_in k s \<or> any_keyword_in ks s)"

text \<open>The loop of \<^verbatim>\<open>search_procedure\<close> over \<^verbatim>\<open>self.procedures\<close>.\<close>

fun search_loop :: "procedure list \<Rightarrow> string \<Rightarrow> procedure option" where
  "search_loop [] user_msg_lower = None"
| "search_loop (p # ps) user_msg_lower =
     (if any_keyword_in (proc_keywords p) user_msg_lower then Some p
      else search_loop ps user_msg_lower)"

definition search_procedure :: "'d pylib \<Rightarrow> knowledge_base \<Rightarrow> string \<Rightarrow> procedure option" where
  "search_procedure lib kb user_message =
     (let user_msg_lower = str_lower lib user_message
      in search_loop (procedures kb) user_msg_lower)"

definition get_default_help :: "knowledge_base \<Rightarrow> string" where
  "get_default_help kb = default_help kb"

text \<open>
  The table built by \<^verbatim>\<open>AIMSKnowledgeBase.__init__\<close>: the keywords and categories are the
  source's, in the source's order. The eight answer bodies and the help text are long
  display texts that no operation inspects; they are the parameters \<open>body\<close> (indexed by
  the position in the list) and \<open>help\<close>.
\<close>

definition AIMSKnowledgeBase_init :: "(nat \<Rightarrow> string) \<Rightarrow> string \<Rightarrow> knowledge_base" where
  "AIMSKnowledgeBase_init body help =
     \<lparr>procedures =
        [\<lparr>proc_keywords = [''enroll'', ''enrollment'', ''register'', ''enlist'', ''add subject''],
          proc_category = ''Enrollment'', proc_response = body 0\<rparr>,
         \<lparr>proc_keywords = [''pay tuition'', ''tuition fee'', ''how to pay'', ''miscellaneous fee'',
                      ''make payment'', ''payment process'', ''assessment fee''],
          proc_category = ''Fee Payment'', proc_response = body 1\<rparr>,
         \<lparr>proc_keywords = [''grades'', ''grade'', ''gwa'', ''marks'', ''scores'', ''results''],
          proc_category = ''Grades'', proc_response = body 2\<rparr>,
         \<lparr>proc_keywords = [''other payments'', ''other fees''],
          proc_category = ''Other Payments'', proc_response = body 3\<rparr>,
         \<lparr>proc_keywords = [''schedule'', ''class'', ''timetable'', ''time'', ''room''],
          proc_category = ''Schedule'', proc_response = body 4\<rparr>,
         \<lparr>proc_keywords = [''registration form'', ''download registration'',
                      ''get registration form'', ''cor'', ''print form'', ''enrollment form''],
          proc_category = ''Registration Form'', proc_response = body 5\<rparr>,
         \<lparr>proc_keywords = [''statement of account'', ''soa'', ''payment history'',
                      ''account history'', ''check balance'', ''view balance'', ''fees paid'',
                      ''payment records''],
          proc_category = ''Account History'', proc_response = body 6\<rparr>,
         \<lparr>proc_keywords = [''password'', ''change password'', ''update password'',
                      ''reset password'', ''account security''],
          proc_category = ''Password'', proc_response = body 7\<rparr>],
      default_help = help\<rparr>"

section \<open>QueueManager\<close>

text \<open>
  The dictionaries the program builds have fixed keys, so they are records. A message
  (\<^verbatim>\<open>msg_obj\<close>), a response, an entry of \<^verbatim>\<open>conversation_history\<close> and an entry of
  \<^verbatim>\<open>queue_log\<close>:
\<close>

record message =
  msg_id :: int
  msg_message :: string
  msg_timestamp :: string
  msg_user_id :: string

record response =
  resp_id :: int
  resp_response :: string
  resp_original_message :: string
  resp_user_id :: string
  resp_timestamp :: string

record history_entry =
  hist_user :: string
  hist_bot :: string
  hist_time :: string
  hist_user_id :: string

record log_entry =
  log_time :: string
  log_action :: string
  log_queue_size :: int

text \<open>
  The fields of \<^verbatim>\<open>QueueManager\<close>. \<^verbatim>\<open>active_users\<close> is a dictionary from user ids to
  ISO timestamps (a finite map); \<^verbatim>\<open>last_process_time\<close> is \<^verbatim>\<open>None\<close> or a reading of \<^verbatim>\<open>time.time()\<close>.
\<close>

record queue_manager =
  message_queue :: "message list"
  processing_queue :: "message list"
  response_queue :: "response list"
  conversation_history :: "history_entry list"
  active_users :: "(string, string) fmap"
  start_time :: string
  queue_log :: "log_entry list"
  last_process_time :: "real option"
  total_messages :: int
  processed_count :: int

text \<open>
  Every reading of the clock is an argument of the function that takes it:
  a string where the source calls \<^verbatim>\<open>datetime.now().isoformat()\<close>, a datetime where it
  calls \<^verbatim>\<open>datetime.now()\<close>, a real where it calls \<^verbatim>\<open>time.time()\<close>.
\<close>

definition QueueManager_init :: "string \<Rightarrow> queue_manager" where
  "QueueManager_init now_iso =
     \<lparr>message_queue = [], processing_queue = [], response_queue = [],
      conversation_history = [], active_users = fmempty, start_time = now_iso,
      queue_log = [], last_process_time = None, total_messages = 0, processed_count = 0\<rparr>"

text \<open>The slice \<^verbatim>\<open>xs[-n:]\<close> for a positive \<open>n\<close>: the last \<open>n\<close> elements, all of a shorter list.\<close>

definition last_n :: "nat \<Rightarrow> 'a list \<Rightarrow> 'a list" where
  "last_n n xs = drop (length xs - n) xs"

text \<open>
  The dictionary written to disk. \<^verbatim>\<open>from_dict\<close> reads every key with \<^verbatim>\<open>data.get\<close>, so a
  key may be absent: each field is optional. The value of \<^verbatim>\<open>last_process_time\<close> may itself
  be \<^verbatim>\<open>None\<close>.
\<close>

record snapshot =
  d_message_queue :: "message list option"
  d_processing_queue :: "message list option"
  d_response_queue :: "response list option"
  d_conversation_history :: "history_entry list option"
  d_total_messages :: "int option"
  d_processed_count :: "int option"
  d_active_users :: "(string, string) fmap option"
  d_start_time :: "string option"
  d_queue_log :: "log_entry list option"
  d_last_process_time :: "real option option"

definition to_dict :: "queue_manager \<Rightarrow> snapshot" where
  "to_dict self =
     \<lparr>d_message_queue = Some (message_queue self),
      d_processing_queue = Some (processing_queue self),
      d_response_queue = Some (response_queue self),
      d_conversation_history = Some (last_n 100 (conversation_history self)),
      d_total_messages = Some (total_messages self),
      d_processed_count = Some (processed_count self),
      d_active_users = Some (active_users self),
      d_start_time = Some (start_time self),
      d_queue_log = Some (last_n 50 (queue_log self)),
      d_last_process_time = Some (last_process_time self)\<rparr>"

text \<open>\<^verbatim>\<open>data.get(key, default)\<close>\<close>

definition dict_get :: "'a option \<Rightarrow> 'a \<Rightarrow> 'a" where
  "dict_get v dflt = (case v of None \<Rightarrow> dflt | Some x \<Rightarrow> x)"

text \<open>
  \<^verbatim>\<open>from_dict\<close> reads the clock twice: in \<^verbatim>\<open>QueueManager()\<close> and for the default of
  \<^verbatim>\<open>start_time\<close>.
\<close>

definition from_dict :: "string \<Rightarrow> string \<Rightarrow> snapshot \<Rightarrow> queue_manager" where
  "from_dict now_init now_default data =
     (let qm = QueueManager_init now_init
      in qm\<lparr>message_queue := dict_get (d_message_queue data) [],
            processing_queue := dict_get (d_processing_queue data) [],
            response_queue := dict_get (d_response_queue data) [],
            conversation_history := dict_get (d_conversation_history data) [],
            total_messages := dict_get (d_total_messages data) 0,
            processed_count := dict_get (d_processed_count data) 0,
            active_users := dict_get (d_active_users data) fmempty,
            start_time := dict_get (d_start_time data) now_default,
            queue_log := dict_get (d_queue_log data) [],
            last_process_time := dict_get (d_last_process_time data) None\<rparr>)"

definition enqueue :: "message \<Rightarrow> queue_manager \<Rightarrow> queue_manager" where
  "enqueue msg_obj self = self\<lparr>message_queue := message_queue self @ [msg_obj]\<rparr>"

definition dequeue :: "queue_manager \<Rightarrow> queue_manager \<times> message option" where
  "dequeue self =
     (case message_queue self of
        [] \<Rightarrow> (self, None)
      | m # rest \<Rightarrow> (self\<lparr>message_queue := rest\<rparr>, Some m))"

text \<open>\<^verbatim>\<open>add_user_message\<close> reads the clock three times.\<close>

definition add_user_message ::
  "string \<Rightarrow> string \<Rightarrow> string \<Rightarrow> string \<Rightarrow> string \<Rightarrow> queue_manager \<Rightarrow> queue_manager" where
  "add_user_message msg user_id now_msg now_active now_log self =
     (let msg_obj = \<lparr>msg_id = total_messages self + 1, msg_message = msg,
                     msg_timestamp = now_msg, msg_user_id = user_id\<rparr>;
          s1 = enqueue msg_obj self;
          s2 = s1\<lparr>total_messages := total_messages s1 + 1\<rparr>;
          s3 = s2\<lparr>active_users := fmupd user_id now_active (active_users s2)\<rparr>
      in s3\<lparr>queue_log := queue_log s3 @
              [\<lparr>log_time = now_log, log_action = ''enqueued'',
                log_queue_size = int (length (message_queue s3))\<rparr>]\<rparr>)"

text \<open>
  The guard of \<^verbatim>\<open>process_next_message\<close> is
  \<^verbatim>\<open>self.last_process_time and (current_time - self.last_process_time) < 3.0\<close>.
  The left operand is tested for truth: \<^verbatim>\<open>None\<close> is false, and so is the number \<^verbatim>\<open>0.0\<close>;
  the right operand is evaluated only when the left one is true.
\<close>

definition throttled :: "real \<Rightarrow> queue_manager \<Rightarrow> bool" where
  "throttled current_time self =
     (case last_process_time self of
        None \<Rightarrow> False
      | Some last_time \<Rightarrow> last_time \<noteq> 0 \<and> current_time - last_time < 3)"

text \<open>
  \<^verbatim>\<open>process_next_message\<close> returns the boolean of the source together with the state.
  A message and a procedure are non-empty dictionaries, so \<^verbatim>\<open>if msg\<close> and
  \<^verbatim>\<open>if procedure\<close> test for \<^verbatim>\<open>None\<close> only.
\<close>

definition process_next_message ::
  "'d pylib \<Rightarrow> knowledge_base \<Rightarrow> real \<Rightarrow> string \<Rightarrow> queue_manager \<Rightarrow> queue_manager \<times> bool" where
  "process_next_message lib knowledge_base current_time now_iso self =
     (if throttled current_time self then (self, False)
      else
        (case dequeue self of
           (s0, None) \<Rightarrow> (s0, False)
         | (s0, Some msg) \<Rightarrow>
             (let s1 = s0\<lparr>processing_queue := processing_queue s0 @ [msg]\<rparr>;
                  s2 = s1\<lparr>last_process_time := Some current_time\<rparr>;
                  procedure = search_procedure lib knowledge_base (msg_message msg);
                  response_text = (case procedure of
                                     Some p \<Rightarrow> proc_response p
                                   | None \<Rightarrow> get_default_help knowledge_base);
                  response = \<lparr>resp_id = msg_id msg, resp_response = response_text,
                              resp_original_message = msg_message msg,
                              resp_user_id = msg_user_id msg, resp_timestamp = now_iso\<rparr>;
                  s3 = s2\<lparr>response_queue := response_queue s2 @ [response]\<rparr>;
                  s4 = (if processing_queue s3 \<noteq> []
                        then s3\<lparr>processing_queue := tl (processing_queue s3)\<rparr> else s3)
              in (s4\<lparr>processed_count := processed_count s4 + 1\<rparr>, True))))"

fun position_loop :: "string \<Rightarrow> message list \<Rightarrow> int \<Rightarrow> int" where
  "position_loop user_id [] idx = 0"
| "position_loop user_id (m # ms) idx =
     (if msg_user_id m = user_id then idx + 1 else position_loop user_id ms (idx + 1))"

definition get_queue_position :: "string \<Rightarrow> queue_manager \<Rightarrow> int" where
  "get_queue_position user_id self = position_loop user_id (message_queue self) 0"

text \<open>
  The body of the first loop of \<^verbatim>\<open>clean_inactive_users\<close>: the user is put on the list
  \<^verbatim>\<open>inactive_users\<close> when the age exceeds the timeout, and also when anything in the
  \<^verbatim>\<open>try\<close> block raises (the \<^verbatim>\<open>except\<close> is bare).
\<close>

definition is_inactive :: "'d pylib \<Rightarrow> 'd \<Rightarrow> real \<Rightarrow> string \<Rightarrow> bool" where
  "is_inactive lib current_time timeout_seconds last_active =
     (case fromisoformat lib last_active of
        None \<Rightarrow> True
      | Some last_active_time \<Rightarrow>
          (case total_seconds lib current_time last_active_time of
             None \<Rightarrow> True
           | Some age \<Rightarrow> age > timeout_seconds))"

text \<open>
  \<^verbatim>\<open>active_users\<close> is a finite map. The first loop collects the keys whose entry is
  inactive, the second loop deletes exactly those keys.
\<close>

definition clean_inactive_users :: "'d pylib \<Rightarrow> 'd \<Rightarrow> real \<Rightarrow> queue_manager \<Rightarrow> queue_manager" where
  "clean_inactive_users lib current_time timeout_seconds self =
     (let inactive_users = (\<lambda>user_id. case fmlookup (active_users self) user_id of
                                          None \<Rightarrow> False
                                        | Some last_active \<Rightarrow>
                                            is_inactive lib current_time timeout_seconds last_active)
      in self\<lparr>active_users := fmfilter (\<lambda>user_id. \<not> inactive_users user_id) (active_users self)\<rparr>)"

definition update_user_activity :: "string \<Rightarrow> string \<Rightarrow> queue_manager \<Rightarrow> queue_manager" where
  "update_user_activity user_id now_iso self =
     self\<lparr>active_users := fmupd user_id now_iso (active_users self)\<rparr>"

record stats =
  st_total_input :: int
  st_processing :: int
  st_response_queue :: int
  st_total_processed :: int
  st_active_users :: int
  st_avg_processing_time :: real
  st_uptime_seconds :: int

text \<open>\<^verbatim>\<open>int(x)\<close> on a float truncates towards zero.\<close>

definition py_int :: "real \<Rightarrow> int" where
  "py_int x = (if 0 \<le> x then \<lfloor>x\<rfloor> else \<lceil>x\<rceil>)"

text \<open>
  \<^verbatim>\<open>get_queue_stats\<close> sweeps with the default timeout of 15 seconds, then computes the
  uptime inside a \<^verbatim>\<open>try\<close> whose bare \<^verbatim>\<open>except\<close> sets it to 0 (\<open>uptime_try\<close> is that
  block).
\<close>

definition uptime_try :: "'d pylib \<Rightarrow> 'd \<Rightarrow> queue_manager \<Rightarrow> real" where
  "uptime_try lib now_stats self =
     (case fromisoformat lib (start_time self) of
        None \<Rightarrow> 0
      | Some start \<Rightarrow>
          (case total_seconds lib now_stats start of
             None \<Rightarrow> 0 | Some uptime \<Rightarrow> uptime))"

definition get_queue_stats :: "'d pylib \<Rightarrow> 'd \<Rightarrow> 'd \<Rightarrow> queue_manager \<Rightarrow> queue_manager \<times> stats" where
  "get_queue_stats lib now_clean now_stats self =
     (let s1 = clean_inactive_users lib now_clean 15 self;
          uptime = uptime_try lib now_stats s1;
          avg_time = (if processed_count s1 > 0
                      then uptime / real_of_int (processed_count s1) else 0)
      in (s1, \<lparr>st_total_input = int (length (message_queue s1)),
               st_processing = int (length (processing_queue s1)),
               st_response_queue = int (length (response_queue s1)),
               st_total_processed = processed_count s1,
               st_active_users = int (fcard (fmdom (active_users s1))),
               st_avg_processing_time = avg_time,
               st_uptime_seconds = py_int uptime\<rparr>))"

text \<open>
  The loop of \<^verbatim>\<open>get_response\<close>: the first response of the user and the queue without it.
\<close>

fun pop_first_response :: "string \<Rightarrow> response list \<Rightarrow> (response \<times> response list) option" where
  "pop_first_response user_id [] = None"
| "pop_first_response user_id (r # rs) =
     (if resp_user_id r = user_id then Some (r, rs)
      else (case pop_first_response user_id rs of
              None \<Rightarrow> None
            | Some (found, rest) \<Rightarrow> Some (found, r # rest)))"

datatype py_error = ValueError

text \<open>
  \<^verbatim>\<open>get_response\<close> pops the response before it parses the timestamp, and the parse is
  not guarded: when it raises, the exception leaves the method with the response already
  removed. The result is the state together with the exception or the returned value.
\<close>

definition get_response ::
  "'d pylib \<Rightarrow> string \<Rightarrow> queue_manager \<Rightarrow> queue_manager \<times> (py_error + response option)" where
  "get_response lib user_id self =
     (case pop_first_response user_id (response_queue self) of
        None \<Rightarrow> (self, Inr None)
      | Some (r, rest) \<Rightarrow>
          (let s1 = self\<lparr>response_queue := rest\<rparr>
           in case fromisoformat lib (resp_timestamp r) of
                None \<Rightarrow> (s1, Inl ValueError)
              | Some t \<Rightarrow>
                  (s1\<lparr>conversation_history := conversation_history s1 @
                        [\<lparr>hist_user = resp_original_message r, hist_bot = resp_response r,
                          hist_time = strftime_HMS lib t, hist_user_id = user_id\<rparr>]\<rparr>,
                   Inr (Some r))))"

definition peek_next_message :: "queue_manager \<Rightarrow> message option" where
  "peek_next_message self = (case message_queue self of [] \<Rightarrow> None | m # _ \<Rightarrow> Some m)"

definition clear_all_queues :: "queue_manager \<Rightarrow> queue_manager" where
  "clear_all_queues self = self\<lparr>message_queue := [], processing_queue := [], response_queue := []\<rparr>"

section \<open>The snapshot file\<close>

text \<open>
  The content of \<^verbatim>\<open>shared_queue_data.json\<close>: no file, a file that \<^verbatim>\<open>json.load\<close> or
  \<^verbatim>\<open>from_dict\<close> cannot read, or a stored dictionary. The data of a state are lists,
  dictionaries with string keys, strings, integers, floats and \<^verbatim>\<open>None\<close>, which
  \<^verbatim>\<open>json.dump\<close> followed by \<^verbatim>\<open>json.load\<close> returns as they were, so a stored dictionary
  is kept as the dictionary itself.
\<close>

datatype file_content = Missing | Unreadable | Json snapshot

text \<open>
  \<^verbatim>\<open>save_queue\<close> catches a failure of the write and reports it; what the file then holds
  is not decided by the program, so it is the argument \<open>failure\<close> (\<open>None\<close> when the write
  succeeds).
\<close>

definition save_queue :: "file_content option \<Rightarrow> queue_manager \<Rightarrow> file_content" where
  "save_queue failure queue_manager =
     (case failure of None \<Rightarrow> Json (to_dict queue_manager) | Some left \<Rightarrow> left)"

text \<open>
  \<^verbatim>\<open>load_queue\<close> sweeps with a timeout of 30 seconds after reading; any exception, and a
  missing file, give a fresh \<^verbatim>\<open>QueueManager()\<close>.
\<close>

definition load_queue ::
  "'d pylib \<Rightarrow> string \<Rightarrow> string \<Rightarrow> 'd \<Rightarrow> string \<Rightarrow> file_content \<Rightarrow> queue_manager" where
  "load_queue lib now_init now_default now_clean now_fresh file =
     (case file of
        Json data \<Rightarrow>
          (let qm = from_dict now_init now_default data
           in clean_inactive_users lib now_clean 30 qm)
      | Missing \<Rightarrow> QueueManager_init now_fresh
      | Unreadable \<Rightarrow> QueueManager_init now_fresh)"

section \<open>Sequences of operations\<close>

text \<open>A run of \<^verbatim>\<open>add_user_message\<close> calls, each with its arguments and clock readings.\<close>

record submission =
  sub_message :: string
  sub_user_id :: string
  sub_now_msg :: string
  sub_now_active :: string
  sub_now_log :: string

definition submit :: "submission \<Rightarrow> queue_manager \<Rightarrow> queue_manager" where
  "submit x self =
     add_user_message (sub_message x) (sub_user_id x) (sub_now_msg x) (sub_now_active x)
       (sub_now_log x) self"

fun submit_all :: "submission list \<Rightarrow> queue_manager \<Rightarrow> queue_manager" where
  "submit_all [] self = self"
| "submit_all (x # xs) self = submit_all xs (submit x self)"

text \<open>
  The five mutating operations, with the arguments and clock readings of each call:
  \<^verbatim>\<open>add_user_message\<close>, \<^verbatim>\<open>process_next_message\<close>, \<^verbatim>\<open>get_response\<close>,
  \<^verbatim>\<open>update_user_activity\<close> and \<^verbatim>\<open>clean_inactive_users\<close>.
\<close>

datatype 'd operation =
    Submit submission
  | Dispatch real string
  | Retrieve string
  | Heartbeat string string
  | Sweep 'd real

fun apply_operation :: "'d pylib \<Rightarrow> knowledge_base \<Rightarrow> 'd operation \<Rightarrow> queue_manager \<Rightarrow> queue_manager" where
  "apply_operation lib kb (Submit x) self = submit x self"
| "apply_operation lib kb (Dispatch current_time now_iso) self =
     fst (process_next_message lib kb current_time now_iso self)"
| "apply_operation lib kb (Retrieve user_id) self = fst (get_response lib user_id self)"
| "apply_operation lib kb (Heartbeat user_id now_iso) self =
     update_user_activity user_id now_iso self"
| "apply_operation lib kb (Sweep current_time timeout_seconds) self =
     clean_inactive_users lib current_time timeout_seconds self"

fun run :: "'d pylib \<Rightarrow> knowledge_base \<Rightarrow> 'd operation list \<Rightarrow> queue_manager \<Rightarrow> queue_manager" where
  "run lib kb [] self = self"
| "run lib kb (op # ops) self = run lib kb ops (apply_operation lib kb op self)"

text \<open>
  The readings of \<^verbatim>\<open>time.time()\<close> that a sequence of operations hands to
  \<^verbatim>\<open>process_next_message\<close>, and those among them at which the call returned \<^verbatim>\<open>True\<close>.
\<close>

fun dispatch_clocks :: "'d operation list \<Rightarrow> real list" where
  "dispatch_clocks [] = []"
| "dispatch_clocks (Dispatch current_time now_iso # ops) = current_time # dispatch_clocks ops"
| "dispatch_clocks (op # ops) = dispatch_clocks ops"

fun dispatch_log ::
  "'d pylib \<Rightarrow> knowledge_base \<Rightarrow> 'd operation list \<Rightarrow> queue_manager \<Rightarrow> real list" where
  "dispatch_log lib kb [] self = []"
| "dispatch_log lib kb (Dispatch current_time now_iso # ops) self =
     (if snd (process_next_message lib kb current_time now_iso self) then [current_time] else [])
     @ dispatch_log lib kb ops (fst (process_next_message lib kb current_time now_iso self))"
| "dispatch_log lib kb (op # ops) self = dispatch_log lib kb ops (apply_operation lib kb op self)"

text \<open>
  The spec's reading of a match, for comparison with \<open>search_loop\<close>: some keyword of the
  procedure is a substring (a contiguous sublist) of the lowercased text.
\<close>

definition keyword_matches :: "'d pylib \<Rightarrow> procedure \<Rightarrow> string \<Rightarrow> bool" where
  "keyword_matches lib p user_message =
     (\<exists>k \<in> set (proc_keywords p). sublist k (str_lower lib user_message))"

section \<open>A sample instance of the library\<close>

text \<open>
  Closed examples need a concrete library. The sample below covers what the examples use:
  \<^verbatim>\<open>str.lower\<close> on ASCII text, and datetimes written the way \<^verbatim>\<open>isoformat()\<close> writes
  them, \<^verbatim>\<open>YYYY-MM-DDTHH:MM:SS\<close> with an optional \<^verbatim>\<open>.ffffff\<close> and an optional UTC offset
  \<^verbatim>\<open>+HH:MM\<close> or \<^verbatim>\<open>-HH:MM\<close> (an aware datetime). Any other string is rejected by the
  sample parser (the library accepts a few more spellings, which no example uses).
\<close>

definition ascii_lower_char :: "char \<Rightarrow> char" where
  "ascii_lower_char c =
     (case map_of (zip ''ABCDEFGHIJKLMNOPQRSTUVWXYZ'' ''abcdefghijklmnopqrstuvwxyz'') c of
        None \<Rightarrow> c | Some l \<Rightarrow> l)"

definition ascii_lower :: "string \<Rightarrow> string" where
  "ascii_lower s = map ascii_lower_char s"

record datetime =
  dt_year :: int
  dt_month :: int
  dt_day :: int
  dt_hour :: int
  dt_minute :: int
  dt_second :: int
  dt_microsecond :: int
  dt_utcoffset :: "int option"

definition digit_val :: "char \<Rightarrow> int option" where
  "digit_val c = map_of (zip ''0123456789'' [0, 1, 2, 3, 4, 5, 6, 7, 8, 9]) c"

fun digits_val :: "int \<Rightarrow> string \<Rightarrow> int option" where
  "digits_val acc [] = Some acc"
| "digits_val acc (c # cs) =
     (case digit_val c of None \<Rightarrow> None | Some d \<Rightarrow> digits_val (10 * acc + d) cs)"

definition field :: "string \<Rightarrow> nat \<Rightarrow> nat \<Rightarrow> int option" where
  "field s from len = digits_val 0 (take len (drop from s))"

definition is_leap :: "int \<Rightarrow> bool" where
  "is_leap y = (y mod 4 = 0 \<and> (y mod 100 \<noteq> 0 \<or> y mod 400 = 0))"

definition days_in_month :: "int \<Rightarrow> int \<Rightarrow> int" where
  "days_in_month y m =
     (if m = 2 then (if is_leap y then 29 else 28)
      else if m = 4 \<or> m = 6 \<or> m = 9 \<or> m = 11 then 30 else 31)"

definition valid_datetime :: "datetime \<Rightarrow> bool" where
  "valid_datetime d =
     (1 \<le> dt_year d \<and> dt_year d \<le> 9999 \<and> 1 \<le> dt_month d \<and> dt_month d \<le> 12 \<and>
      1 \<le> dt_day d \<and> dt_day d \<le> days_in_month (dt_year d) (dt_month d) \<and>
      dt_hour d < 24 \<and> dt_minute d < 60 \<and> dt_second d < 60)"

text \<open>The offset in minutes, read at position \<open>z\<close>; \<open>None\<close> when it is malformed.\<close>

definition sample_offset :: "string \<Rightarrow> nat \<Rightarrow> int option" where
  "sample_offset s z =
     (if (s ! z = CHR ''+'' \<or> s ! z = CHR ''-'') \<and> s ! (z + 3) = CHR '':''
      then (case (field s (z + 1) 2, field s (z + 4) 2) of
              (Some oh, Some om) \<Rightarrow>
                (if oh < 24 \<and> om < 60
                 then Some ((if s ! z = CHR ''-'' then - 1 else 1) * (oh * 60 + om))
                 else None)
            | _ \<Rightarrow> None)
      else None)"

definition sample_fromisoformat :: "string \<Rightarrow> datetime option" where
  "sample_fromisoformat s =
     (let n = length s;
          frac = (n = 26 \<or> n = 32);
          aware = (n = 25 \<or> n = 32);
          z = (if frac then 26 else 19)
      in if (n = 19 \<or> n = 25 \<or> n = 26 \<or> n = 32)
            \<and> s ! 4 = CHR ''-'' \<and> s ! 7 = CHR ''-'' \<and> s ! 10 = CHR ''T''
            \<and> s ! 13 = CHR '':'' \<and> s ! 16 = CHR '':''
            \<and> (if frac then s ! 19 = CHR ''.'' else True)
            \<and> (if aware then sample_offset s z \<noteq> None else True)
         then
           (case (field s 0 4, field s 5 2, field s 8 2, field s 11 2, field s 14 2,
                  field s 17 2, if frac then field s 20 6 else Some 0) of
              (Some y, Some mo, Some d, Some h, Some mi, Some sec, Some us) \<Rightarrow>
                (let dt = \<lparr>dt_year = y, dt_month = mo, dt_day = d, dt_hour = h,
                           dt_minute = mi, dt_second = sec, dt_microsecond = us,
                           dt_utcoffset = (if aware then sample_offset s z else None)\<rparr>
                 in if valid_datetime dt then Some dt else None)
            | _ \<Rightarrow> None)
         else None)"

text \<open>The day number of a date in the proleptic Gregorian calendar.\<close>

definition days_from_civil :: "int \<Rightarrow> int \<Rightarrow> int \<Rightarrow> int" where
  "days_from_civil y m d =
     (let y' = (if m \<le> 2 then y - 1 else y);
          mp = (if m > 2 then m - 3 else m + 9);
          doy = (153 * mp + 2) div 5 + d - 1
      in 365 * y' + y' div 4 - y' div 100 + y' div 400 + doy)"

definition micros_of :: "datetime \<Rightarrow> int" where
  "micros_of d =
     (((days_from_civil (dt_year d) (dt_month d) (dt_day d) * 24 + dt_hour d) * 60
        + dt_minute d - (case dt_utcoffset d of None \<Rightarrow> 0 | Some off \<Rightarrow> off)) * 60
        + dt_second d) * 1000000 + dt_microsecond d"

text \<open>
  Subtracting a naive datetime from an aware one, or the reverse, raises
  \<^verbatim>\<open>TypeError\<close>.
\<close>

definition sample_total_seconds :: "datetime \<Rightarrow> datetime \<Rightarrow> real option" where
  "sample_total_seconds a b =
     (if (dt_utcoffset a = None) = (dt_utcoffset b = None)
      then Some (real_of_int (micros_of a - micros_of b) / 1000000)
      else None)"

definition two_digits :: "int \<Rightarrow> string" where
  "two_digits n = [''0123456789'' ! nat (n div 10), ''0123456789'' ! nat (n mod 10)]"

definition sample_strftime_HMS :: "datetime \<Rightarrow> string" where
  "sample_strftime_HMS d =
     two_digits (dt_hour d) @ '':'' @ two_digits (dt_minute d) @ '':'' @ two_digits (dt_second d)"

definition sample_lib :: "datetime pylib" where
  "sample_lib = \<lparr>str_lower = ascii_lower, fromisoformat = sample_fromisoformat,
                  total_seconds = sample_total_seconds, strftime_HMS = sample_strftime_HMS\<rparr>"

text \<open>A naive clock reading, as \<^verbatim>\<open>datetime.now()\<close> returns it.\<close>

definition clock :: "int \<Rightarrow> int \<Rightarrow> int \<Rightarrow> int \<Rightarrow> int \<Rightarrow> int \<Rightarrow> int \<Rightarrow> datetime" where
  "clock y mo d h mi sec us =
     \<lparr>dt_year = y, dt_month = mo, dt_day = d, dt_hour = h, dt_minute = mi,
      dt_second = sec, dt_microsecond = us, dt_utcoffset = None\<rparr>"

text \<open>The knowledge base of the examples: the source's table with placeholder bodies.\<close>

definition sample_kb :: knowledge_base where
  "sample_kb = AIMSKnowledgeBase_init (\<lambda>i. ''body'' @ [''01234567'' ! i]) ''help''"

section \<open>Example states\<close>

definition ex_msg :: "int \<Rightarrow> string \<Rightarrow> string \<Rightarrow> message" where
  "ex_msg i text user =
     \<lparr>msg_id = i, msg_message = text, msg_timestamp = ''2024-01-01T00:00:00'',
      msg_user_id = user\<rparr>"

definition ex_resp :: "int \<Rightarrow> string \<Rightarrow> response" where
  "ex_resp i user =
     \<lparr>resp_id = i, resp_response = ''body0'', resp_original_message = ''How do I enroll?'',
      resp_user_id = user, resp_timestamp = ''2024-01-01T09:30:05.250000''\<rparr>"

definition ex_entry :: history_entry where
  "ex_entry = \<lparr>hist_user = ''hi'', hist_bot = ''help'', hist_time = ''08:00:00'',
               hist_user_id = ''Student_1001''\<rparr>"

definition ex_fresh :: queue_manager where
  "ex_fresh = QueueManager_init ''2024-01-01T00:00:00''"

text \<open>One pending request, nothing dispatched yet.\<close>

definition ex_one_pending :: queue_manager where
  "ex_one_pending =
     ex_fresh\<lparr>message_queue := [ex_msg 1 ''How do I enroll?'' ''Student_1001''],
              total_messages := 1\<rparr>"

text \<open>The same state with a recorded dispatch time of \<^verbatim>\<open>0.0\<close>.\<close>

definition ex_zero_stamp :: queue_manager where
  "ex_zero_stamp = ex_one_pending\<lparr>last_process_time := Some 0\<rparr>"

text \<open>A snapshot that still holds a request in \<^verbatim>\<open>processing_queue\<close>.\<close>

definition ex_stale_in_flight :: queue_manager where
  "ex_stale_in_flight =
     ex_fresh\<lparr>message_queue := [ex_msg 2 ''xyz unmatched'' ''Student_1002''],
              processing_queue := [ex_msg 1 ''How do I enroll?'' ''Student_1001''],
              total_messages := 2\<rparr>"

definition ex_idle_user :: queue_manager where
  "ex_idle_user =
     ex_fresh\<lparr>active_users := fmupd ''Student_1001'' ''2024-01-01T00:00:00'' fmempty\<rparr>"

definition ex_outbox :: queue_manager where
  "ex_outbox =
     ex_fresh\<lparr>response_queue :=
       [ex_resp 1 ''Student_1002'', ex_resp 2 ''Student_1001'', ex_resp 3 ''Student_1001'']\<rparr>"

definition ex_full_history :: queue_manager where
  "ex_full_history =
     ex_fresh\<lparr>response_queue := [ex_resp 1 ''Student_1001''],
              conversation_history := replicate 100 ex_entry\<rparr>"

definition ex_activity :: queue_manager where
  "ex_activity =
     ex_fresh\<lparr>active_users :=
       fmupd ''Student_1001'' ''2024-01-01T00:00:10''
         (fmupd ''Student_1002'' ''2024-01-01T00:00:00''
           (fmupd ''Student_1003'' ''yesterday'' fmempty))\<rparr>"

definition ex_aware_user :: queue_manager where
  "ex_aware_user =
     ex_fresh\<lparr>active_users := fmupd ''Student_1001'' ''2024-01-01T00:00:00+00:00'' fmempty\<rparr>"

definition ex_uptime :: queue_manager where
  "ex_uptime = ex_fresh\<lparr>total_messages := 1, processed_count := 1\<rparr>"

definition ex_bad_start :: queue_manager where
  "ex_bad_start = (QueueManager_init ''not-a-date'')\<lparr>total_messages := 3, processed_count := 3\<rparr>"

definition ex_long_history :: queue_manager where
  "ex_long_history = ex_fresh\<lparr>conversation_history := replicate 150 ex_entry\<rparr>"

definition ex_sub :: "string \<Rightarrow> string \<Rightarrow> submission" where
  "ex_sub text user =
     \<lparr>sub_message = text, sub_user_id = user, sub_now_msg = ''2024-01-01T00:00:01'',
      sub_now_active = ''2024-01-01T00:00:01'', sub_now_log = ''2024-01-01T00:00:01''\<rparr>"

text \<open>
  Two submissions, a dispatch, a second dispatch one second later, a retrieval, a
  heartbeat and a sweep.
\<close>

definition ex_ops :: "datetime operation list" where
  "ex_ops =
     [Submit (ex_sub ''How do I enroll?'' ''Student_1001''),
      Submit (ex_sub ''xyz unmatched'' ''Student_1002''),
      Dispatch 100 ''2024-01-01T00:00:02'',
      Dispatch 101 ''2024-01-01T00:00:03'',
      Retrieve ''Student_1001'',
      Heartbeat ''Student_1003'' ''2024-01-01T00:00:04'',
      Sweep (clock 2024 1 1 0 0 30 0) 15]"

text \<open>
  Two submissions, then dispatch attempts at the clock readings 100, 101 and 104.
\<close>

definition ex_dispatches :: "datetime operation list" where
  "ex_dispatches =
     [Submit (ex_sub ''How do I enroll?'' ''Student_1001''),
      Submit (ex_sub ''xyz unmatched'' ''Student_1002''),
      Dispatch 100 ''2024-01-01T00:00:02'',
      Dispatch 101 ''2024-01-01T00:00:03'',
      Dispatch 104 ''2024-01-01T00:00:06'']"

section \<open>Unfolding the examples\<close>

lemmas sample_defs =
  sample_lib_def sample_fromisoformat_def sample_offset_def field_def digit_val_def
  valid_datetime_def days_in_month_def is_leap_def sample_total_seconds_def micros_of_def
  days_from_civil_def clock_def sample_strftime_HMS_def two_digits_def
  ascii_lower_def ascii_lower_char_def

lemmas example_defs =
  ex_msg_def ex_resp_def ex_entry_def ex_fresh_def ex_one_pending_def ex_zero_stamp_def
  ex_stale_in_flight_def ex_idle_user_def ex_outbox_def ex_full_history_def ex_activity_def
  ex_aware_user_def ex_uptime_def ex_bad_start_def ex_long_history_def ex_sub_def ex_ops_def
  ex_dispatches_def
  QueueManager_init_def

lemmas kb_defs = search_procedure_def sample_kb_def AIMSKnowledgeBase_init_def get_default_help_def

lemmas run_defs =
  submit_def add_user_message_def enqueue_def process_next_message_def throttled_def
  dequeue_def get_response_def update_user_activity_def clean_inactive_users_def
  is_inactive_def Let_def

section \<open>The resolver: first match in list order\<close>

lemma starts_with_prefix: "starts_with k s = prefix k s"
  by (induction k s rule: starts_with.induct) auto

lemma str_in_sublist: "str_in k s = sublist k s"
  by (induction s) (auto simp: starts_with_prefix sublist_Cons_right)

lemma any_keyword_in_iff: "any_keyword_in ks s = (\<exists>k\<in>set ks. sublist k s)"
  by (induction ks) (auto simp: str_in_sublist)

lemma search_loop_None:
  "search_loop ps s = None \<longleftrightarrow> (\<forall>p\<in>set ps. \<not> any_keyword_in (proc_keywords p) s)"
  by (induction ps) auto

lemma search_loop_first:
  "(\<forall>q\<in>set pre. \<not> any_keyword_in (proc_keywords q) s) \<Longrightarrow> any_keyword_in (proc_keywords p) s
   \<Longrightarrow> search_loop (pre @ p # post) s = Some p"
  by (induction pre) auto

lemma search_loop_Some:
  "search_loop ps s = Some p \<Longrightarrow>
   \<exists>pre post. ps = pre @ p # post \<and> (\<forall>q\<in>set pre. \<not> any_keyword_in (proc_keywords q) s)
      \<and> any_keyword_in (proc_keywords p) s"
proof (induction ps)
  case Nil
  then show ?case by simp
next
  case (Cons a ps)
  show ?case
  proof (cases "any_keyword_in (proc_keywords a) s")
    case True
    with Cons.prems have "a = p" by simp
    with True have "a # ps = [] @ p # ps \<and> (\<forall>q\<in>set []. \<not> any_keyword_in (proc_keywords q) s)
      \<and> any_keyword_in (proc_keywords p) s" by simp
    then show ?thesis by blast
  next
    case False
    with Cons.prems have "search_loop ps s = Some p" by simp
    from Cons.IH[OF this] obtain pre post where
      h: "ps = pre @ p # post" "\<forall>q\<in>set pre. \<not> any_keyword_in (proc_keywords q) s"
         "any_keyword_in (proc_keywords p) s" by blast
    with False have "a # ps = (a # pre) @ p # post \<and>
       (\<forall>q\<in>set (a # pre). \<not> any_keyword_in (proc_keywords q) s) \<and>
       any_keyword_in (proc_keywords p) s" by simp
    then show ?thesis by blast
  qed
qed

text \<open>
  Claim C7. \<open>search_procedure\<close> lowercases the text and returns the first procedure, in
  the order of the list, one of whose keywords is a substring of the lowercased text:
  it returns \<open>None\<close> exactly when no procedure matches, and it returns \<open>p\<close> exactly when
  \<open>p\<close> stands in the list behind procedures none of which matches and \<open>p\<close> matches. So a
  text that matches several procedures gets the earliest of them.
\<close>

theorem search_procedure_first_match:
  "(search_procedure lib kb user_message = None \<longleftrightarrow>
      (\<forall>p\<in>set (procedures kb). \<not> keyword_matches lib p user_message)) \<and>
   (search_procedure lib kb user_message = Some p \<longleftrightarrow>
      (\<exists>pre post. procedures kb = pre @ p # post \<and>
         (\<forall>q\<in>set pre. \<not> keyword_matches lib q user_message) \<and>
         keyword_matches lib p user_message))"
proof -
  have m: "keyword_matches lib q user_message =
           any_keyword_in (proc_keywords q) (str_lower lib user_message)" for q
    by (simp add: keyword_matches_def any_keyword_in_iff)
  have a: "search_procedure lib kb user_message = None \<longleftrightarrow>
      (\<forall>p\<in>set (procedures kb). \<not> keyword_matches lib p user_message)"
    by (simp add: search_procedure_def search_loop_None m)
  have b: "search_procedure lib kb user_message = Some p \<longleftrightarrow>
      (\<exists>pre post. procedures kb = pre @ p # post \<and>
         (\<forall>q\<in>set pre. \<not> keyword_matches lib q user_message) \<and>
         keyword_matches lib p user_message)"
    unfolding m search_procedure_def Let_def
    using search_loop_Some search_loop_first by metis
  from a b show ?thesis by blast
qed

text \<open>
  The text below matches the first procedure (keyword \<^verbatim>\<open>enroll\<close>) and the sixth (keyword
  \<^verbatim>\<open>enrollment form\<close>); the first is returned.
\<close>

theorem search_procedure_first_match_witness:
  "keyword_matches sample_lib (procedures sample_kb ! 0) ''Where is my Enrollment Form?'' \<and>
   keyword_matches sample_lib (procedures sample_kb ! 5) ''Where is my Enrollment Form?'' \<and>
   search_procedure sample_lib sample_kb ''Where is my Enrollment Form?''
     = Some (procedures sample_kb ! 0) \<and>
   proc_category (procedures sample_kb ! 0) = ''Enrollment'' \<and>
   proc_category (procedures sample_kb ! 5) = ''Registration Form''"
proof -
  let ?msg = "''Where is my Enrollment Form?''"
  let ?p = "procedures sample_kb ! 0"
  have m0: "keyword_matches sample_lib ?p ?msg"
    by (simp add: keyword_matches_def sample_kb_def AIMSKnowledgeBase_init_def sample_lib_def
        ascii_lower_def ascii_lower_char_def sublist_code(3))
  have m5: "keyword_matches sample_lib (procedures sample_kb ! 5) ?msg"
    by (simp add: keyword_matches_def sample_kb_def AIMSKnowledgeBase_init_def sample_lib_def
        ascii_lower_def ascii_lower_char_def sublist_code(3))
  have dec: "procedures sample_kb = [] @ ?p # tl (procedures sample_kb)"
    by (simp add: sample_kb_def AIMSKnowledgeBase_init_def)
  have ex: "\<exists>pre post. procedures sample_kb = pre @ ?p # post \<and>
         (\<forall>q\<in>set pre. \<not> keyword_matches sample_lib q ?msg) \<and>
         keyword_matches sample_lib ?p ?msg"
    apply (rule exI[where x = "[]"])
    apply (rule exI[where x = "tl (procedures sample_kb)"])
    using dec m0 by simp
  have r: "search_procedure sample_lib sample_kb ?msg = Some ?p"
    using search_procedure_first_match[of sample_lib sample_kb ?msg ?p] ex by blast
  have c: "proc_category ?p = ''Enrollment'' \<and>
           proc_category (procedures sample_kb ! 5) = ''Registration Form''"
    by (simp add: sample_kb_def AIMSKnowledgeBase_init_def)
  from m0 m5 r c show ?thesis by blast
qed

section \<open>Rate limiting of \<open>process_next_message\<close>\<close>

text \<open>
  \<^verbatim>\<open>last_process_time\<close> is \<^verbatim>\<open>None\<close> in a new \<^verbatim>\<open>QueueManager\<close> and is only ever assigned a
  reading of \<^verbatim>\<open>time.time()\<close>, the seconds since the epoch, which is not \<^verbatim>\<open>0.0\<close> on any
  run of the program. When the recorded time is such a reading and less than three
  seconds have passed, the call returns \<open>False\<close> and the state is the one it was given.
  A call that returns \<open>True\<close> records its clock reading.
\<close>

lemma process_next_message_throttled:
  "last_process_time s = Some l \<Longrightarrow> l \<noteq> 0 \<Longrightarrow> current_time - l < 3 \<Longrightarrow>
   process_next_message lib kb current_time now_iso s = (s, False)"
  by (simp add: process_next_message_def throttled_def)

lemma process_next_message_sets_time:
  "process_next_message lib kb current_time now_iso s = (s', True) \<Longrightarrow>
   last_process_time s' = Some current_time"
  by (auto simp: process_next_message_def dequeue_def Let_def split: if_splits list.splits)

lemma no_second_dispatch_within_interval:
  assumes "process_next_message lib kb t1 iso1 s = (s1, True)" and "t1 \<noteq> 0" and "t2 - t1 < 3"
  shows "process_next_message lib kb t2 iso2 s1 = (s1, False)"
  using process_next_message_throttled[OF process_next_message_sets_time[OF assms(1)] assms(2,3)] .

lemma process_next_message_False_same:
  "\<not> snd (process_next_message lib kb current_time now_iso s) \<Longrightarrow>
   fst (process_next_message lib kb current_time now_iso s) = s"
  by (auto simp: process_next_message_def dequeue_def Let_def split: if_splits list.splits)

lemma process_next_message_True_stamp:
  "snd (process_next_message lib kb current_time now_iso s) \<Longrightarrow>
   last_process_time (fst (process_next_message lib kb current_time now_iso s)) = Some current_time"
  by (auto simp: process_next_message_def dequeue_def Let_def split: if_splits list.splits)

lemma process_next_message_True_gap:
  "snd (process_next_message lib kb current_time now_iso s) \<Longrightarrow>
   last_process_time s = Some l \<Longrightarrow> l \<noteq> 0 \<Longrightarrow> 3 \<le> current_time - l"
  by (auto simp: process_next_message_def throttled_def split: if_splits)

lemma apply_operation_stamp:
  "last_process_time s \<noteq> Some 0 \<Longrightarrow> 0 \<notin> set (dispatch_clocks [op]) \<Longrightarrow>
   last_process_time (apply_operation lib kb op s) \<noteq> Some 0"
  by (cases op)
     (auto simp: submit_def add_user_message_def enqueue_def Let_def process_next_message_def
        dequeue_def get_response_def update_user_activity_def clean_inactive_users_def
        split: list.splits option.splits prod.splits if_splits)

lemma dispatch_clocks_Cons:
  "0 \<notin> set (dispatch_clocks (op # ops)) \<longleftrightarrow>
   0 \<notin> set (dispatch_clocks [op]) \<and> 0 \<notin> set (dispatch_clocks ops)"
  by (cases op) auto

lemma run_stamp:
  "last_process_time s \<noteq> Some 0 \<Longrightarrow> 0 \<notin> set (dispatch_clocks ops) \<Longrightarrow>
   last_process_time (run lib kb ops s) \<noteq> Some 0"
proof (induction ops arbitrary: s)
  case Nil
  then show ?case by simp
next
  case (Cons op ops)
  from Cons.prems(2) have a: "0 \<notin> set (dispatch_clocks [op])" and b: "0 \<notin> set (dispatch_clocks ops)"
    by (simp_all add: dispatch_clocks_Cons[of op ops])
  from Cons.IH[OF apply_operation_stamp[OF Cons.prems(1) a] b] show ?case by simp
qed

lemma other_operation_stamp:
  "dispatch_clocks [op] = [] \<Longrightarrow>
   last_process_time (apply_operation lib kb op s) = last_process_time s"
  by (cases op)
     (auto simp: submit_def add_user_message_def enqueue_def Let_def
        get_response_def update_user_activity_def clean_inactive_users_def
        split: option.splits prod.splits)

lemma other_operation_log:
  "dispatch_clocks [op] = [] \<Longrightarrow>
   dispatch_log lib kb (op # ops) s = dispatch_log lib kb ops (apply_operation lib kb op s)"
  by (cases op) auto

lemma dispatch_log_gaps:
  "last_process_time s \<noteq> Some 0 \<Longrightarrow> 0 \<notin> set (dispatch_clocks ops) \<Longrightarrow>
   sorted_wrt (\<lambda>a b. 3 \<le> b - a) (dispatch_log lib kb ops s) \<and>
   (\<forall>l u. last_process_time s = Some l \<longrightarrow> u \<in> set (dispatch_log lib kb ops s) \<longrightarrow> 3 \<le> u - l)"
proof (induction ops arbitrary: s)
  case Nil
  show ?case by simp
next
  case (Cons op ops)
  from Cons.prems(2) have a: "0 \<notin> set (dispatch_clocks [op])" and b: "0 \<notin> set (dispatch_clocks ops)"
    by (simp_all add: dispatch_clocks_Cons[of op ops])
  show ?case
  proof (cases "dispatch_clocks [op] = []")
    case True
    have st: "last_process_time (apply_operation lib kb op s) = last_process_time s"
      by (rule other_operation_stamp[OF True])
    with Cons.prems(1) have "last_process_time (apply_operation lib kb op s) \<noteq> Some 0" by simp
    from Cons.IH[OF this b] show ?thesis
      by (simp add: other_operation_log[OF True] st)
  next
    case False
    then obtain t iso where op: "op = Dispatch t iso" by (cases op) auto
    with a have t0: "t \<noteq> 0" by simp
    let ?r = "process_next_message lib kb t iso s"
    show ?thesis
    proof (cases "snd ?r")
      case True
      have st: "last_process_time (fst ?r) = Some t"
        by (rule process_next_message_True_stamp[OF True])
      with t0 have "last_process_time (fst ?r) \<noteq> Some 0" by simp
      from Cons.IH[OF this b]
      have s1: "sorted_wrt (\<lambda>a b. 3 \<le> b - a) (dispatch_log lib kb ops (fst ?r))"
        and g1: "\<forall>u \<in> set (dispatch_log lib kb ops (fst ?r)). 3 \<le> u - t"
        using st by auto
      have g0: "3 \<le> t - l" if "last_process_time s = Some l" for l
      proof -
        from that Cons.prems(1) have "l \<noteq> 0" by auto
        from process_next_message_True_gap[OF True that this] show ?thesis .
      qed
      have g2: "3 \<le> u - l"
        if "last_process_time s = Some l" "u \<in> set (dispatch_log lib kb ops (fst ?r))" for l u
      proof -
        from g0[OF that(1)] g1 that(2) have "3 \<le> t - l" "3 \<le> u - t" by auto
        then show ?thesis by linarith
      qed
      from s1 g1 g0 g2 True show ?thesis by (auto simp: op)
    next
      case False
      have same: "fst ?r = s" by (rule process_next_message_False_same[OF False])
      from Cons.IH[OF Cons.prems(1) b] False show ?thesis by (simp add: op same)
    qed
  qed
qed

text \<open>
  The condition on the clock is needed in the model: the guard tests the recorded time
  for truth, so a recorded \<^verbatim>\<open>0.0\<close> would count as not set. With a recorded time of \<open>0\<close> and
  a clock reading of \<open>1\<close> the call dispatches. No run of the program records \<^verbatim>\<open>0.0\<close>.
\<close>

lemma process_next_message_zero_stamp:
  "last_process_time ex_zero_stamp = Some 0 \<and> (1::real) - 0 < 3 \<and>
   process_next_message sample_lib sample_kb 1 ''1970-01-01T00:00:01'' ex_zero_stamp =
     (ex_fresh\<lparr>response_queue :=
         [\<lparr>resp_id = 1, resp_response = ''body0'', resp_original_message = ''How do I enroll?'',
           resp_user_id = ''Student_1001'', resp_timestamp = ''1970-01-01T00:00:01''\<rparr>],
        last_process_time := Some 1, total_messages := 1, processed_count := 1\<rparr>, True)"
  by (simp add: process_next_message_def throttled_def dequeue_def Let_def
      example_defs kb_defs sample_defs)

text \<open>
  Claim C1. Let the clock readings handed to \<open>process_next_message\<close> be readings of
  \<^verbatim>\<open>time.time()\<close>, that is, not \<open>0\<close>. In every state reached from a fresh \<^verbatim>\<open>QueueManager\<close>
  by a sequence of operations, if \<^verbatim>\<open>last_process_time\<close> is set and less than three seconds
  have passed since, the call returns \<open>False\<close> and the state is unchanged. Consequently,
  in any such sequence, every call that returned \<open>True\<close> came at least three seconds
  after each earlier call that returned \<open>True\<close>. The first statement also holds in any
  state at all whose recorded time is not \<open>0\<close>.
\<close>

theorem process_next_message_rate_limit:
  assumes "0 \<notin> set (dispatch_clocks ops)"
  shows "(last_process_time (run lib kb ops (QueueManager_init t0)) = Some l \<and> current_time - l < 3 \<longrightarrow>
            process_next_message lib kb current_time now_iso (run lib kb ops (QueueManager_init t0)) =
              (run lib kb ops (QueueManager_init t0), False)) \<and>
         sorted_wrt (\<lambda>a b. 3 \<le> b - a) (dispatch_log lib kb ops (QueueManager_init t0)) \<and>
         (last_process_time s = Some l \<and> l \<noteq> 0 \<and> current_time - l < 3 \<longrightarrow>
            process_next_message lib kb current_time now_iso s = (s, False))"
proof -
  have i: "last_process_time (QueueManager_init t0) \<noteq> Some 0"
    by (simp add: QueueManager_init_def)
  have r: "last_process_time (run lib kb ops (QueueManager_init t0)) \<noteq> Some 0"
    by (rule run_stamp[OF i assms])
  have a: "last_process_time (run lib kb ops (QueueManager_init t0)) = Some l \<and> current_time - l < 3 \<longrightarrow>
            process_next_message lib kb current_time now_iso (run lib kb ops (QueueManager_init t0)) =
              (run lib kb ops (QueueManager_init t0), False)"
    using r by (auto intro: process_next_message_throttled)
  have b: "sorted_wrt (\<lambda>a b. 3 \<le> b - a) (dispatch_log lib kb ops (QueueManager_init t0))"
    using dispatch_log_gaps[OF i assms] by blast
  have c: "last_process_time s = Some l \<and> l \<noteq> 0 \<and> current_time - l < 3 \<longrightarrow>
            process_next_message lib kb current_time now_iso s = (s, False)"
    by (auto intro: process_next_message_throttled)
  from a b c show ?thesis by blast
qed

text \<open>
  Attempts at 100, 101 and 104 with two requests pending: the first and the third
  dispatch, the second is rejected, and so is a further attempt at 106.
\<close>

theorem process_next_message_rate_limit_witness:
  "dispatch_clocks ex_dispatches = [100, 101, 104] \<and>
   dispatch_log sample_lib sample_kb ex_dispatches (QueueManager_init ''2024-01-01T00:00:00'')
     = [100, 104] \<and>
   last_process_time (run sample_lib sample_kb ex_dispatches (QueueManager_init ''2024-01-01T00:00:00''))
     = Some 104 \<and>
   process_next_message sample_lib sample_kb 106 ''2024-01-01T00:00:08''
       (run sample_lib sample_kb ex_dispatches (QueueManager_init ''2024-01-01T00:00:00'')) =
     (run sample_lib sample_kb ex_dispatches (QueueManager_init ''2024-01-01T00:00:00''), False) \<and>
   sorted_wrt (\<lambda>a b. 3 \<le> b - a)
     (dispatch_log sample_lib sample_kb ex_dispatches (QueueManager_init ''2024-01-01T00:00:00''))"
proof -
  let ?S = "run sample_lib sample_kb ex_dispatches (QueueManager_init ''2024-01-01T00:00:00'')"
  have h: "0 \<notin> set (dispatch_clocks ex_dispatches)"
    by (simp add: ex_dispatches_def)
  have c: "dispatch_clocks ex_dispatches = [100, 101, 104]"
    by (simp add: ex_dispatches_def)
  have g: "dispatch_log sample_lib sample_kb ex_dispatches (QueueManager_init ''2024-01-01T00:00:00'')
     = [100, 104]"
    by (simp add: ex_dispatches_def ex_sub_def run_defs QueueManager_init_def sample_defs kb_defs)
  have l: "last_process_time ?S = Some 104"
    by (simp add: ex_dispatches_def ex_sub_def run_defs QueueManager_init_def sample_defs kb_defs)
  have d: "(106::real) - 104 < 3" by simp
  note t = process_next_message_rate_limit[OF h, where lib = sample_lib and kb = sample_kb
      and ?t0.0 = "''2024-01-01T00:00:00''" and l = 104 and current_time = 106
      and now_iso = "''2024-01-01T00:00:08''"]
  from t l d have p: "process_next_message sample_lib sample_kb 106 ''2024-01-01T00:00:08'' ?S = (?S, False)"
    by blast
  from t have s: "sorted_wrt (\<lambda>a b. 3 \<le> b - a)
     (dispatch_log sample_lib sample_kb ex_dispatches (QueueManager_init ''2024-01-01T00:00:00''))"
    by blast
  from c g l p s show ?thesis by blast
qed

section \<open>The effect of a dispatch\<close>

text \<open>
  Whatever \<^verbatim>\<open>processing_queue\<close> holds on entry, a dispatch appends the request to it and
  removes its first element.
\<close>

lemma process_next_message_in_flight:
  assumes "\<not> throttled current_time s" and "message_queue s = m # rest"
  shows "processing_queue (fst (process_next_message lib kb current_time now_iso s)) =
           tl (processing_queue s @ [m])"
  using assms by (simp add: process_next_message_def dequeue_def Let_def)

text \<open>
  Claim C2, as amended. In a state that is not throttled, whose \<^verbatim>\<open>message_queue\<close> is
  \<open>m # rest\<close> and whose \<^verbatim>\<open>processing_queue\<close> is empty on entry, \<open>process_next_message\<close>
  pops \<open>m\<close>, appends one response with the id, text and user of \<open>m\<close> (the matched
  procedure's answer, or the default help when nothing matches) to \<^verbatim>\<open>response_queue\<close>,
  leaves \<^verbatim>\<open>processing_queue\<close> empty, adds one to \<^verbatim>\<open>processed_count\<close>, records the clock
  reading in \<^verbatim>\<open>last_process_time\<close> and returns \<open>True\<close>. Nothing else changes.
\<close>

theorem process_next_message_dispatch:
  assumes "last_process_time s = None \<or> (\<exists>l. last_process_time s = Some l \<and> 3 \<le> current_time - l)"
    and "message_queue s = m # rest"
    and "processing_queue s = []"
  shows "process_next_message lib kb current_time now_iso s =
     (s\<lparr>message_queue := rest,
        processing_queue := [],
        response_queue := response_queue s @
          [\<lparr>resp_id = msg_id m,
            resp_response = (case search_procedure lib kb (msg_message m) of
                               Some p \<Rightarrow> proc_response p
                             | None \<Rightarrow> get_default_help kb),
            resp_original_message = msg_message m,
            resp_user_id = msg_user_id m,
            resp_timestamp = now_iso\<rparr>],
        last_process_time := Some current_time,
        processed_count := processed_count s + 1\<rparr>, True)"
proof -
  have nt: "\<not> throttled current_time s"
    using assms(1) by (auto simp: throttled_def split: option.splits)
  show ?thesis
    by (simp add: process_next_message_def nt dequeue_def Let_def assms(2,3))
qed

theorem process_next_message_dispatch_witness:
  "process_next_message sample_lib sample_kb 100 ''2024-01-01T00:00:05'' ex_one_pending =
     (ex_fresh\<lparr>response_queue :=
         [\<lparr>resp_id = 1, resp_response = ''body0'', resp_original_message = ''How do I enroll?'',
           resp_user_id = ''Student_1001'', resp_timestamp = ''2024-01-01T00:00:05''\<rparr>],
        last_process_time := Some 100, total_messages := 1, processed_count := 1\<rparr>, True)"
proof -
  have h1: "last_process_time ex_one_pending = None \<or>
            (\<exists>l. last_process_time ex_one_pending = Some l \<and> 3 \<le> 100 - l)"
    by (simp add: example_defs)
  have h2: "message_queue ex_one_pending = ex_msg 1 ''How do I enroll?'' ''Student_1001'' # []"
    by (simp add: example_defs)
  have h3: "processing_queue ex_one_pending = []"
    by (simp add: example_defs)
  show ?thesis
    using process_next_message_dispatch[OF h1 h2 h3, of sample_lib sample_kb "''2024-01-01T00:00:05''"]
    by (simp add: example_defs kb_defs sample_defs)
qed

text \<open>
  The claim as stated speaks of every state that is not throttled; it fails when
  \<^verbatim>\<open>processing_queue\<close> is not empty on entry. The method appends the request and then
  pops index 0, which removes the older element and leaves the request just processed in
  the queue.
\<close>

theorem process_next_message_in_flight_counterexample:
  "last_process_time ex_stale_in_flight = None \<and> message_queue ex_stale_in_flight \<noteq> [] \<and>
   snd (process_next_message sample_lib sample_kb 100 ''2024-01-01T00:00:05'' ex_stale_in_flight) = True \<and>
   processing_queue (fst (process_next_message sample_lib sample_kb 100 ''2024-01-01T00:00:05''
      ex_stale_in_flight)) = [ex_msg 2 ''xyz unmatched'' ''Student_1002''] \<and>
   processing_queue (fst (process_next_message sample_lib sample_kb 100 ''2024-01-01T00:00:05''
      ex_stale_in_flight)) \<noteq> []"
  by (simp add: process_next_message_def throttled_def dequeue_def Let_def
      example_defs)


section \<open>Saving and loading\<close>

lemma length_last_n: "length (last_n n xs) = min n (length xs)"
  by (simp add: last_n_def)

lemma last_n_short: "length xs \<le> n \<Longrightarrow> last_n n xs = xs"
  by (simp add: last_n_def)

lemma last_n_suffix: "suffix (last_n n xs) xs"
  by (simp add: last_n_def suffix_drop)

text \<open>
  Claim C3, as amended. \<open>from_dict\<close> applied to \<open>to_dict s\<close> is \<open>s\<close> with
  \<^verbatim>\<open>conversation_history\<close> cut to its last 100 entries and \<^verbatim>\<open>queue_log\<close> to its last 50.
  \<open>load_queue\<close> applied to the saved file is the same state after the inactivity sweep
  with a timeout of 30 seconds, which \<open>load_queue\<close> runs on every load: the entries of
  \<^verbatim>\<open>active_users\<close> that the sweep evicts do not come back.
\<close>

theorem from_dict_to_dict_roundtrip:
  "from_dict now_init now_default (to_dict s) =
     s\<lparr>conversation_history := last_n 100 (conversation_history s),
       queue_log := last_n 50 (queue_log s)\<rparr> \<and>
   load_queue lib now_init now_default now_clean now_fresh (save_queue None s) =
     clean_inactive_users lib now_clean 30
       (s\<lparr>conversation_history := last_n 100 (conversation_history s),
          queue_log := last_n 50 (queue_log s)\<rparr>)"
  by (cases s) (simp add: from_dict_def to_dict_def QueueManager_init_def dict_get_def
      load_queue_def save_queue_def)

text \<open>A history of 150 entries comes back with 100, the rest of the state as it was.\<close>

theorem from_dict_to_dict_roundtrip_witness:
  "from_dict ''2024-01-02T00:00:00'' ''2024-01-02T00:00:00'' (to_dict ex_long_history) =
     ex_fresh\<lparr>conversation_history := replicate 100 ex_entry\<rparr>"
  using from_dict_to_dict_roundtrip[where s = ex_long_history
      and now_init = "''2024-01-02T00:00:00''" and now_default = "''2024-01-02T00:00:00''",
      THEN conjunct1]
  by (simp add: last_n_def ex_long_history_def ex_fresh_def QueueManager_init_def)

text \<open>
  The claim as stated says that \<^verbatim>\<open>active_users\<close> comes back unchanged from
  \<open>load_queue\<close>. A user last seen a minute before the load is gone after it.
\<close>

theorem load_queue_sweeps_counterexample:
  "fmlookup (active_users ex_idle_user) ''Student_1001'' = Some ''2024-01-01T00:00:00'' \<and>
   fmlookup (active_users (load_queue sample_lib ''2024-01-01T00:01:00'' ''2024-01-01T00:01:00''
      (clock 2024 1 1 0 1 0 0) ''2024-01-01T00:01:00'' (save_queue None ex_idle_user)))
      ''Student_1001'' = None \<and>
   load_queue sample_lib ''2024-01-01T00:01:00'' ''2024-01-01T00:01:00''
      (clock 2024 1 1 0 1 0 0) ''2024-01-01T00:01:00'' (save_queue None ex_idle_user) \<noteq>
     ex_idle_user\<lparr>conversation_history := last_n 100 (conversation_history ex_idle_user),
                  queue_log := last_n 50 (queue_log ex_idle_user)\<rparr>"
proof -
  let ?l = "load_queue sample_lib ''2024-01-01T00:01:00'' ''2024-01-01T00:01:00''
      (clock 2024 1 1 0 1 0 0) ''2024-01-01T00:01:00'' (save_queue None ex_idle_user)"
  have a: "fmlookup (active_users ex_idle_user) ''Student_1001'' = Some ''2024-01-01T00:00:00''"
    by (simp add: example_defs)
  have b: "fmlookup (active_users ?l) ''Student_1001'' = None"
    by (simp add: load_queue_def save_queue_def from_dict_def to_dict_def dict_get_def
        clean_inactive_users_def is_inactive_def Let_def example_defs sample_defs)
  have c: "?l \<noteq> ex_idle_user\<lparr>conversation_history := last_n 100 (conversation_history ex_idle_user),
                  queue_log := last_n 50 (queue_log ex_idle_user)\<rparr>"
  proof
    assume "?l = ex_idle_user\<lparr>conversation_history := last_n 100 (conversation_history ex_idle_user),
                  queue_log := last_n 50 (queue_log ex_idle_user)\<rparr>"
    then have "active_users ?l = active_users ex_idle_user" by simp
    with a b show False by simp
  qed
  from a b c show ?thesis by blast
qed


section \<open>Retrieving a response\<close>

lemma pop_first_response_miss:
  "\<forall>r\<in>set rs. resp_user_id r \<noteq> u \<Longrightarrow> pop_first_response u rs = None"
  by (induction rs) auto

lemma pop_first_response_hit:
  "\<forall>x\<in>set pre. resp_user_id x \<noteq> u \<Longrightarrow> resp_user_id r = u \<Longrightarrow>
   pop_first_response u (pre @ r # post) = Some (r, pre @ post)"
  by (induction pre) auto

text \<open>
  Claim C4, as amended. When no response in \<^verbatim>\<open>response_queue\<close> belongs to the user,
  \<open>get_response\<close> returns \<open>None\<close> and the state is unchanged. When \<open>r\<close> is the first
  response of the user and its timestamp parses, \<open>get_response\<close> removes \<open>r\<close>, appends
  one entry built from it to \<^verbatim>\<open>conversation_history\<close> and returns \<open>r\<close>. The history is
  not truncated here: it grows by one entry (the cut to 100 entries is made by \<open>to_dict\<close>
  when the state is saved).
\<close>

theorem get_response_first_match:
  "((\<forall>r\<in>set (response_queue s). resp_user_id r \<noteq> user_id) \<longrightarrow>
      get_response lib user_id s = (s, Inr None)) \<and>
   (response_queue s = pre @ r # post \<and> (\<forall>x\<in>set pre. resp_user_id x \<noteq> user_id) \<and>
    resp_user_id r = user_id \<and> fromisoformat lib (resp_timestamp r) = Some t \<longrightarrow>
      get_response lib user_id s =
        (s\<lparr>response_queue := pre @ post,
           conversation_history := conversation_history s @
             [\<lparr>hist_user = resp_original_message r, hist_bot = resp_response r,
               hist_time = strftime_HMS lib t, hist_user_id = user_id\<rparr>]\<rparr>,
         Inr (Some r)))"
  by (simp add: get_response_def pop_first_response_miss pop_first_response_hit Let_def)

theorem get_response_first_match_witness:
  "get_response sample_lib ''Student_1003'' ex_outbox = (ex_outbox, Inr None) \<and>
   get_response sample_lib ''Student_1001'' ex_outbox =
     (ex_outbox\<lparr>response_queue := [ex_resp 1 ''Student_1002'', ex_resp 3 ''Student_1001''],
                conversation_history :=
                  [\<lparr>hist_user = ''How do I enroll?'', hist_bot = ''body0'',
                    hist_time = ''09:30:05'', hist_user_id = ''Student_1001''\<rparr>]\<rparr>,
      Inr (Some (ex_resp 2 ''Student_1001'')))"
proof -
  have miss: "\<forall>r\<in>set (response_queue ex_outbox). resp_user_id r \<noteq> ''Student_1003''"
    by (simp add: example_defs)
  have hit: "response_queue ex_outbox =
               [ex_resp 1 ''Student_1002''] @ ex_resp 2 ''Student_1001'' # [ex_resp 3 ''Student_1001''] \<and>
             (\<forall>x\<in>set [ex_resp 1 ''Student_1002'']. resp_user_id x \<noteq> ''Student_1001'') \<and>
             resp_user_id (ex_resp 2 ''Student_1001'') = ''Student_1001'' \<and>
             fromisoformat sample_lib (resp_timestamp (ex_resp 2 ''Student_1001'')) =
               Some \<lparr>dt_year = 2024, dt_month = 1, dt_day = 1, dt_hour = 9, dt_minute = 30,
                     dt_second = 5, dt_microsecond = 250000, dt_utcoffset = None\<rparr>"
    by (simp add: example_defs sample_defs)
  have a: "get_response sample_lib ''Student_1003'' ex_outbox = (ex_outbox, Inr None)"
    using get_response_first_match[of ex_outbox "''Student_1003''" sample_lib] miss by blast
  have b: "get_response sample_lib ''Student_1001'' ex_outbox =
     (ex_outbox\<lparr>response_queue := [ex_resp 1 ''Student_1002''] @ [ex_resp 3 ''Student_1001''],
                conversation_history := conversation_history ex_outbox @
                  [\<lparr>hist_user = resp_original_message (ex_resp 2 ''Student_1001''),
                    hist_bot = resp_response (ex_resp 2 ''Student_1001''),
                    hist_time = strftime_HMS sample_lib \<lparr>dt_year = 2024, dt_month = 1, dt_day = 1, dt_hour = 9, dt_minute = 30,
                     dt_second = 5, dt_microsecond = 250000, dt_utcoffset = None\<rparr>,
                    hist_user_id = ''Student_1001''\<rparr>]\<rparr>,
      Inr (Some (ex_resp 2 ''Student_1001'')))"
    using get_response_first_match[of ex_outbox "''Student_1001''" sample_lib
        "[ex_resp 1 ''Student_1002'']" "ex_resp 2 ''Student_1001''" "[ex_resp 3 ''Student_1001'']"] hit
    by blast
  have c: "conversation_history ex_outbox = []" "resp_original_message (ex_resp 2 ''Student_1001'') = ''How do I enroll?''"
    "resp_response (ex_resp 2 ''Student_1001'') = ''body0''"
    "strftime_HMS sample_lib \<lparr>dt_year = 2024, dt_month = 1, dt_day = 1, dt_hour = 9, dt_minute = 30,
                     dt_second = 5, dt_microsecond = 250000, dt_utcoffset = None\<rparr> = ''09:30:05''"
    by (simp_all add: example_defs sample_defs)
  from a b show ?thesis by (simp add: c)
qed

text \<open>
  The claim as stated has the history truncated to its last 100 entries by the retrieval
  itself. With 100 entries before the call there are 101 after it.
\<close>

theorem get_response_no_truncation_counterexample:
  "length (conversation_history ex_full_history) = 100 \<and>
   snd (get_response sample_lib ''Student_1001'' ex_full_history) = Inr (Some (ex_resp 1 ''Student_1001'')) \<and>
   length (conversation_history (fst (get_response sample_lib ''Student_1001'' ex_full_history))) = 101 \<and>
   conversation_history (fst (get_response sample_lib ''Student_1001'' ex_full_history)) \<noteq>
     last_n 100 (conversation_history ex_full_history @
        [\<lparr>hist_user = ''How do I enroll?'', hist_bot = ''body0'',
          hist_time = ''09:30:05'', hist_user_id = ''Student_1001''\<rparr>])"
proof -
  have g: "get_response sample_lib ''Student_1001'' ex_full_history =
     (ex_full_history\<lparr>response_queue := [],
        conversation_history := replicate 100 ex_entry @
          [\<lparr>hist_user = ''How do I enroll?'', hist_bot = ''body0'',
            hist_time = ''09:30:05'', hist_user_id = ''Student_1001''\<rparr>]\<rparr>,
      Inr (Some (ex_resp 1 ''Student_1001'')))"
    by (simp add: get_response_def Let_def ex_full_history_def ex_fresh_def QueueManager_init_def
        ex_resp_def sample_defs)
  have l: "length (last_n 100 (conversation_history ex_full_history @
        [\<lparr>hist_user = ''How do I enroll?'', hist_bot = ''body0'',
          hist_time = ''09:30:05'', hist_user_id = ''Student_1001''\<rparr>])) = 100"
    by (simp add: last_n_def ex_full_history_def)
  have n: "length (conversation_history (fst (get_response sample_lib ''Student_1001'' ex_full_history))) = 101"
    by (simp add: g)
  have h: "length (conversation_history ex_full_history) = 100"
    by (simp add: ex_full_history_def)
  have ne: "conversation_history (fst (get_response sample_lib ''Student_1001'' ex_full_history)) \<noteq>
     last_n 100 (conversation_history ex_full_history @
        [\<lparr>hist_user = ''How do I enroll?'', hist_bot = ''body0'',
          hist_time = ''09:30:05'', hist_user_id = ''Student_1001''\<rparr>])"
  proof
    assume "conversation_history (fst (get_response sample_lib ''Student_1001'' ex_full_history)) =
     last_n 100 (conversation_history ex_full_history @
        [\<lparr>hist_user = ''How do I enroll?'', hist_bot = ''body0'',
          hist_time = ''09:30:05'', hist_user_id = ''Student_1001''\<rparr>])"
    with n l show False by simp
  qed
  from h n ne g show ?thesis by simp
qed


section \<open>Submission order and ids\<close>

lemma submit_step:
  "message_queue (submit x s) = message_queue s @
      [\<lparr>msg_id = total_messages s + 1, msg_message = sub_message x,
        msg_timestamp = sub_now_msg x, msg_user_id = sub_user_id x\<rparr>] \<and>
   total_messages (submit x s) = total_messages s + 1"
  by (simp add: submit_def add_user_message_def enqueue_def Let_def)

lemma submit_all_general:
  "message_queue (submit_all xs s) = message_queue s @
      map (\<lambda>(i, x). \<lparr>msg_id = total_messages s + int i + 1, msg_message = sub_message x,
                      msg_timestamp = sub_now_msg x, msg_user_id = sub_user_id x\<rparr>)
          (enumerate 0 xs) \<and>
   total_messages (submit_all xs s) = total_messages s + int (length xs)"
proof (induction xs arbitrary: s)
  case Nil
  show ?case by simp
next
  case (Cons x xs)
  have sh: "map (\<lambda>(i, x). \<lparr>msg_id = total_messages s + int i + 1, msg_message = sub_message x,
                      msg_timestamp = sub_now_msg x, msg_user_id = sub_user_id x\<rparr>)
          (enumerate (Suc 0) xs) =
        map (\<lambda>(i, x). \<lparr>msg_id = total_messages s + 1 + int i + 1, msg_message = sub_message x,
                      msg_timestamp = sub_now_msg x, msg_user_id = sub_user_id x\<rparr>)
          (enumerate 0 xs)"
    by (simp add: enumerate_Suc_eq split_beta add.commute add.left_commute)
  show ?case
    using Cons.IH[of "submit x s"] sh by (simp add: submit_step)
qed

lemma ids_upto: "map (\<lambda>i. int i + 1) [0..<n] = [1..int n]"
proof (induction n)
  case 0
  show ?case by simp
next
  case (Suc n)
  have "[1..int (Suc n)] = [1..int n] @ [int n + 1]"
    using upto_rec2[of 1 "int (Suc n)"] by (simp add: add.commute)
  with Suc show ?case by simp
qed

text \<open>
  Claim C5. Starting from a fresh \<open>QueueManager\<close>, after any sequence of submissions
  \<^verbatim>\<open>message_queue\<close> holds one message per submission, in the order of arrival, the
  \<open>i\<close>-th with id \<open>i\<close>: the ids are \<open>1, 2, ..., n\<close>, strictly increasing. Each single
  submission, in any state, appends the message with id \<^verbatim>\<open>total_messages + 1\<close> at the tail
  and adds one to \<^verbatim>\<open>total_messages\<close>.
\<close>

theorem submit_all_fresh:
  "message_queue (submit_all xs (QueueManager_init t0)) =
      map (\<lambda>(i, x). \<lparr>msg_id = int i + 1, msg_message = sub_message x,
                      msg_timestamp = sub_now_msg x, msg_user_id = sub_user_id x\<rparr>)
          (enumerate 0 xs) \<and>
   map msg_id (message_queue (submit_all xs (QueueManager_init t0))) = [1..int (length xs)] \<and>
   sorted_wrt (<) (map msg_id (message_queue (submit_all xs (QueueManager_init t0)))) \<and>
   total_messages (submit_all xs (QueueManager_init t0)) = int (length xs) \<and>
   message_queue (submit x s) = message_queue s @
      [\<lparr>msg_id = total_messages s + 1, msg_message = sub_message x,
        msg_timestamp = sub_now_msg x, msg_user_id = sub_user_id x\<rparr>] \<and>
   total_messages (submit x s) = total_messages s + 1"
proof -
  let ?S = "submit_all xs (QueueManager_init t0)"
  have a: "message_queue ?S =
      map (\<lambda>(i, x). \<lparr>msg_id = int i + 1, msg_message = sub_message x,
                      msg_timestamp = sub_now_msg x, msg_user_id = sub_user_id x\<rparr>)
          (enumerate 0 xs)"
    and d: "total_messages ?S = int (length xs)"
    using submit_all_general[of xs "QueueManager_init t0"]
    by (simp_all add: QueueManager_init_def)
  have "map msg_id (message_queue ?S) = map ((\<lambda>i. int i + 1) \<circ> fst) (enumerate 0 xs)"
    unfolding a by (simp add: split_beta o_def)
  also have "\<dots> = map (\<lambda>i. int i + 1) (map fst (enumerate 0 xs))"
    by (simp only: map_map)
  also have "\<dots> = map (\<lambda>i. int i + 1) [0..<length xs]"
    by simp
  also have "\<dots> = [1..int (length xs)]"
    by (rule ids_upto)
  finally have b: "map msg_id (message_queue ?S) = [1..int (length xs)]" .
  have c: "sorted_wrt (<) (map msg_id (message_queue ?S))"
    unfolding b by simp
  from a b c d submit_step[of x s] show ?thesis by blast
qed


theorem submit_all_fresh_witness:
  "message_queue (submit_all [ex_sub ''How do I enroll?'' ''Student_1001'',
                              ex_sub ''xyz unmatched'' ''Student_1002'']
                   (QueueManager_init ''2024-01-01T00:00:00'')) =
     [\<lparr>msg_id = 1, msg_message = ''How do I enroll?'', msg_timestamp = ''2024-01-01T00:00:01'',
       msg_user_id = ''Student_1001''\<rparr>,
      \<lparr>msg_id = 2, msg_message = ''xyz unmatched'', msg_timestamp = ''2024-01-01T00:00:01'',
       msg_user_id = ''Student_1002''\<rparr>]"
  using submit_all_fresh[where xs = "[ex_sub ''How do I enroll?'' ''Student_1001'',
                                      ex_sub ''xyz unmatched'' ''Student_1002'']"
      and ?t0.0 = "''2024-01-01T00:00:00''", THEN conjunct1]
  by (simp add: ex_sub_def)

section \<open>The inactivity sweep\<close>

text \<open>
  Claim C6, as amended. After \<open>clean_inactive_users\<close> every remaining entry of
  \<^verbatim>\<open>active_users\<close> is an entry of the old map whose age is at most the timeout. Every
  removed entry had a timestamp that fails to parse, or one that parses but cannot be
  subtracted from the clock reading (the subtraction raises and the bare \<^verbatim>\<open>except\<close>
  evicts the user), or an age greater than the timeout. No other field changes.
\<close>

theorem clean_inactive_users_sweep:
  "(\<forall>u la. fmlookup (active_users (clean_inactive_users lib now timeout s)) u = Some la \<longrightarrow>
      fmlookup (active_users s) u = Some la \<and>
      (\<exists>t age. fromisoformat lib la = Some t \<and> total_seconds lib now t = Some age \<and>
               age \<le> timeout)) \<and>
   (\<forall>u la. fmlookup (active_users s) u = Some la \<and>
           fmlookup (active_users (clean_inactive_users lib now timeout s)) u = None \<longrightarrow>
      fromisoformat lib la = None \<or>
      (\<exists>t. fromisoformat lib la = Some t \<and> total_seconds lib now t = None) \<or>
      (\<exists>t age. fromisoformat lib la = Some t \<and> total_seconds lib now t = Some age \<and>
               age > timeout)) \<and>
   clean_inactive_users lib now timeout s =
     s\<lparr>active_users := active_users (clean_inactive_users lib now timeout s)\<rparr>"
  by (auto simp: clean_inactive_users_def is_inactive_def Let_def split: option.splits if_splits)

theorem clean_inactive_users_sweep_witness:
  "fmlookup (active_users (clean_inactive_users sample_lib (clock 2024 1 1 0 0 20 0) 15 ex_activity))
      ''Student_1001'' = Some ''2024-01-01T00:00:10'' \<and>
   (\<exists>t age. fromisoformat sample_lib ''2024-01-01T00:00:10'' = Some t \<and>
       total_seconds sample_lib (clock 2024 1 1 0 0 20 0) t = Some age \<and> age \<le> 15) \<and>
   fmlookup (active_users (clean_inactive_users sample_lib (clock 2024 1 1 0 0 20 0) 15 ex_activity))
      ''Student_1002'' = None \<and>
   fmlookup (active_users (clean_inactive_users sample_lib (clock 2024 1 1 0 0 20 0) 15 ex_activity))
      ''Student_1003'' = None \<and>
   fromisoformat sample_lib ''yesterday'' = None"
proof -
  let ?s' = "clean_inactive_users sample_lib (clock 2024 1 1 0 0 20 0) 15 ex_activity"
  have k: "fmlookup (active_users ?s') ''Student_1001'' = Some ''2024-01-01T00:00:10''"
    by (simp add: clean_inactive_users_def is_inactive_def Let_def example_defs sample_defs)
  have r2: "fmlookup (active_users ?s') ''Student_1002'' = None"
    by (simp add: clean_inactive_users_def is_inactive_def Let_def example_defs sample_defs)
  have r3: "fmlookup (active_users ?s') ''Student_1003'' = None"
    by (simp add: clean_inactive_users_def is_inactive_def Let_def example_defs sample_defs)
  have j: "fromisoformat sample_lib ''yesterday'' = None"
    by (simp add: sample_defs)
  have e: "\<exists>t age. fromisoformat sample_lib ''2024-01-01T00:00:10'' = Some t \<and>
       total_seconds sample_lib (clock 2024 1 1 0 0 20 0) t = Some age \<and> age \<le> 15"
    using clean_inactive_users_sweep[of sample_lib "clock 2024 1 1 0 0 20 0" 15 ex_activity] k
    by blast
  from k e r2 r3 j show ?thesis by blast
qed

text \<open>
  The claim as stated gives two reasons for a removal: an age above the timeout or a
  timestamp that fails to parse. A timestamp with a UTC offset parses, its age against
  the naive clock cannot be computed, and the entry is removed five seconds after it was
  written with a timeout of fifteen.
\<close>

theorem clean_inactive_users_aware_counterexample:
  "fmlookup (active_users ex_aware_user) ''Student_1001'' = Some ''2024-01-01T00:00:00+00:00'' \<and>
   fmlookup (active_users (clean_inactive_users sample_lib (clock 2024 1 1 0 0 5 0) 15 ex_aware_user))
      ''Student_1001'' = None \<and>
   fromisoformat sample_lib ''2024-01-01T00:00:00+00:00'' =
      Some \<lparr>dt_year = 2024, dt_month = 1, dt_day = 1, dt_hour = 0, dt_minute = 0,
            dt_second = 0, dt_microsecond = 0, dt_utcoffset = Some 0\<rparr> \<and>
   total_seconds sample_lib (clock 2024 1 1 0 0 5 0)
      \<lparr>dt_year = 2024, dt_month = 1, dt_day = 1, dt_hour = 0, dt_minute = 0,
       dt_second = 0, dt_microsecond = 0, dt_utcoffset = Some 0\<rparr> = None"
  by (simp add: clean_inactive_users_def is_inactive_def Let_def example_defs sample_defs)


section \<open>Statistics\<close>

text \<open>
  Claim C8, as amended. For every state, \<open>get_queue_stats\<close> runs the sweep with a
  timeout of 15 seconds and returns as \<^verbatim>\<open>avg_processing_time\<close> the exact uptime in
  seconds (\<open>uptime_try\<close>, a float that is not truncated) divided by \<^verbatim>\<open>processed_count\<close>
  when that count is positive, and 0 otherwise. The reported \<^verbatim>\<open>uptime_seconds\<close> is that
  uptime truncated to an integer. The exact uptime is the difference between the clock
  and the start time whenever the start time parses.
\<close>

theorem get_queue_stats_avg:
  "st_avg_processing_time (snd (get_queue_stats lib now_clean now_stats s)) =
     (if processed_count s > 0
      then uptime_try lib now_stats s / real_of_int (processed_count s) else 0) \<and>
   st_uptime_seconds (snd (get_queue_stats lib now_clean now_stats s)) =
     py_int (uptime_try lib now_stats s) \<and>
   st_total_processed (snd (get_queue_stats lib now_clean now_stats s)) = processed_count s \<and>
   fst (get_queue_stats lib now_clean now_stats s) = clean_inactive_users lib now_clean 15 s \<and>
   (fromisoformat lib (start_time s) = Some start \<and>
    total_seconds lib now_stats start = Some uptime \<longrightarrow>
      uptime_try lib now_stats s = uptime)"
  by (simp add: get_queue_stats_def uptime_try_def clean_inactive_users_def Let_def)

theorem get_queue_stats_avg_witness:
  "st_avg_processing_time (snd (get_queue_stats sample_lib (clock 2024 1 1 0 0 1 0)
       (clock 2024 1 1 0 0 1 500000) ex_uptime)) = 3 / 2 \<and>
   st_uptime_seconds (snd (get_queue_stats sample_lib (clock 2024 1 1 0 0 1 0)
       (clock 2024 1 1 0 0 1 500000) ex_uptime)) = 1"
proof -
  have h1: "fromisoformat sample_lib (start_time ex_uptime) = Some (clock 2024 1 1 0 0 0 0)"
    by (simp add: example_defs sample_defs)
  have h2: "total_seconds sample_lib (clock 2024 1 1 0 0 1 500000) (clock 2024 1 1 0 0 0 0) = Some (3 / 2)"
    by (simp add: sample_defs)
  have p: "processed_count ex_uptime = 1" by (simp add: example_defs)
  have f: "py_int (3 / 2) = 1" by (simp add: py_int_def)
  have u: "uptime_try sample_lib (clock 2024 1 1 0 0 1 500000) ex_uptime = 3 / 2"
    using get_queue_stats_avg[of sample_lib "clock 2024 1 1 0 0 1 0" "clock 2024 1 1 0 0 1 500000"
        ex_uptime "clock 2024 1 1 0 0 0 0" "3 / 2"] h1 h2
    by blast
  show ?thesis
    using get_queue_stats_avg[of sample_lib "clock 2024 1 1 0 0 1 0" "clock 2024 1 1 0 0 1 500000"
        ex_uptime "clock 2024 1 1 0 0 0 0" "3 / 2"]
    by (simp add: u p f)
qed

text \<open>
  The claim as stated divides the reported \<^verbatim>\<open>uptime_seconds\<close>. After 1.5 seconds and one
  processed request the average is 1.5 while \<^verbatim>\<open>uptime_seconds\<close> is 1.
\<close>

theorem get_queue_stats_avg_counterexample:
  "st_total_processed (snd (get_queue_stats sample_lib (clock 2024 1 1 0 0 1 0)
       (clock 2024 1 1 0 0 1 500000) ex_uptime)) = 1 \<and>
   st_uptime_seconds (snd (get_queue_stats sample_lib (clock 2024 1 1 0 0 1 0)
       (clock 2024 1 1 0 0 1 500000) ex_uptime)) = 1 \<and>
   st_avg_processing_time (snd (get_queue_stats sample_lib (clock 2024 1 1 0 0 1 0)
       (clock 2024 1 1 0 0 1 500000) ex_uptime)) = 3 / 2 \<and>
   st_avg_processing_time (snd (get_queue_stats sample_lib (clock 2024 1 1 0 0 1 0)
       (clock 2024 1 1 0 0 1 500000) ex_uptime)) \<noteq>
     real_of_int (st_uptime_seconds (snd (get_queue_stats sample_lib (clock 2024 1 1 0 0 1 0)
       (clock 2024 1 1 0 0 1 500000) ex_uptime))) /
     real_of_int (st_total_processed (snd (get_queue_stats sample_lib (clock 2024 1 1 0 0 1 0)
       (clock 2024 1 1 0 0 1 500000) ex_uptime)))"
  by (simp add: get_queue_stats_def uptime_try_def clean_inactive_users_def Let_def py_int_def
      example_defs sample_defs)


section \<open>The counters\<close>

lemma apply_operation_balance:
  "processed_count s + int (length (message_queue s)) = total_messages s \<Longrightarrow>
   processed_count (apply_operation lib kb op s)
     + int (length (message_queue (apply_operation lib kb op s)))
     = total_messages (apply_operation lib kb op s)"
proof (cases op)
  case (Submit x)
  assume "processed_count s + int (length (message_queue s)) = total_messages s"
  with Submit show ?thesis
    by (simp add: submit_def add_user_message_def enqueue_def Let_def)
next
  case (Dispatch t iso)
  assume "processed_count s + int (length (message_queue s)) = total_messages s"
  with Dispatch show ?thesis
    by (auto simp: process_next_message_def dequeue_def Let_def split: list.splits)
next
  case (Retrieve u)
  assume "processed_count s + int (length (message_queue s)) = total_messages s"
  with Retrieve show ?thesis
    by (auto simp: get_response_def Let_def split: option.splits prod.splits)
next
  case (Heartbeat u iso)
  assume "processed_count s + int (length (message_queue s)) = total_messages s"
  with Heartbeat show ?thesis by (simp add: update_user_activity_def)
next
  case (Sweep t timeout)
  assume "processed_count s + int (length (message_queue s)) = total_messages s"
  with Sweep show ?thesis by (simp add: clean_inactive_users_def Let_def)
qed

lemma run_balance:
  "processed_count s + int (length (message_queue s)) = total_messages s \<Longrightarrow>
   processed_count (run lib kb ops s) + int (length (message_queue (run lib kb ops s)))
     = total_messages (run lib kb ops s)"
  by (induction ops arbitrary: s) (simp_all add: apply_operation_balance)

lemma apply_operation_mono:
  "total_messages s \<le> total_messages (apply_operation lib kb op s) \<and>
   processed_count s \<le> processed_count (apply_operation lib kb op s)"
  by (cases op)
     (auto simp: submit_def add_user_message_def enqueue_def Let_def process_next_message_def
        dequeue_def get_response_def update_user_activity_def clean_inactive_users_def
        split: list.splits option.splits prod.splits)

lemma run_mono:
  "total_messages s \<le> total_messages (run lib kb ops s) \<and>
   processed_count s \<le> processed_count (run lib kb ops s)"
proof (induction ops arbitrary: s)
  case Nil
  show ?case by simp
next
  case (Cons op ops)
  from Cons[of "apply_operation lib kb op s"] apply_operation_mono[of s lib kb op]
  show ?case by auto
qed

text \<open>
  Claim C9. In every state reached from a fresh \<open>QueueManager\<close> by a sequence of
  submissions, dispatches, retrievals, heartbeats and sweeps, \<^verbatim>\<open>processed_count\<close> is at
  most \<^verbatim>\<open>total_messages\<close>. No operation, and no sequence of operations, applied to any
  state decreases either counter.
\<close>

theorem counters_invariant:
  "processed_count (run lib kb ops (QueueManager_init t0))
     \<le> total_messages (run lib kb ops (QueueManager_init t0)) \<and>
   total_messages s \<le> total_messages (apply_operation lib kb op s) \<and>
   processed_count s \<le> processed_count (apply_operation lib kb op s) \<and>
   total_messages s \<le> total_messages (run lib kb ops s) \<and>
   processed_count s \<le> processed_count (run lib kb ops s)"
proof -
  have "processed_count (QueueManager_init t0) + int (length (message_queue (QueueManager_init t0)))
        = total_messages (QueueManager_init t0)"
    by (simp add: QueueManager_init_def)
  from run_balance[OF this, of lib kb ops]
  have "processed_count (run lib kb ops (QueueManager_init t0))
     \<le> total_messages (run lib kb ops (QueueManager_init t0))" by linarith
  with apply_operation_mono[of s lib kb op] run_mono[of s lib kb ops] show ?thesis by blast
qed


theorem counters_invariant_witness:
  "processed_count (run sample_lib sample_kb ex_ops (QueueManager_init ''2024-01-01T00:00:00'')) = 1 \<and>
   total_messages (run sample_lib sample_kb ex_ops (QueueManager_init ''2024-01-01T00:00:00'')) = 2 \<and>
   processed_count (run sample_lib sample_kb ex_ops (QueueManager_init ''2024-01-01T00:00:00''))
     \<le> total_messages (run sample_lib sample_kb ex_ops (QueueManager_init ''2024-01-01T00:00:00''))"
proof -
  let ?S = "run sample_lib sample_kb ex_ops (QueueManager_init ''2024-01-01T00:00:00'')"
  have a: "processed_count ?S = 1 \<and> total_messages ?S = 2"
    by (simp add: ex_ops_def ex_sub_def submit_def add_user_message_def enqueue_def
        process_next_message_def throttled_def dequeue_def get_response_def
        update_user_activity_def clean_inactive_users_def is_inactive_def Let_def
        QueueManager_init_def sample_defs kb_defs)
  from counters_invariant[where lib = sample_lib and kb = sample_kb and ops = ex_ops
      and ?t0.0 = "''2024-01-01T00:00:00''"]
  have "processed_count ?S \<le> total_messages ?S" by blast
  with a show ?thesis by blast
qed

section \<open>Statistics with an unreadable start time\<close>

text \<open>
  Claim C10. \<open>get_queue_stats\<close> is a total function: both of its \<^verbatim>\<open>try\<close> blocks catch
  every exception, so it has no error result. When \<^verbatim>\<open>start_time\<close> fails to parse, the
  reported \<^verbatim>\<open>uptime_seconds\<close> is 0 and \<^verbatim>\<open>avg_processing_time\<close> is 0, whatever
  \<^verbatim>\<open>processed_count\<close> is.
\<close>

theorem get_queue_stats_bad_start_time:
  assumes "fromisoformat lib (start_time s) = None"
  shows "st_uptime_seconds (snd (get_queue_stats lib now_clean now_stats s)) = 0 \<and>
         st_avg_processing_time (snd (get_queue_stats lib now_clean now_stats s)) = 0 \<and>
         fst (get_queue_stats lib now_clean now_stats s) = clean_inactive_users lib now_clean 15 s"
  using assms
  by (simp add: get_queue_stats_def uptime_try_def clean_inactive_users_def Let_def py_int_def)

theorem get_queue_stats_bad_start_time_witness:
  "processed_count ex_bad_start = 3 \<and>
   st_uptime_seconds (snd (get_queue_stats sample_lib (clock 2024 1 1 0 0 1 0)
       (clock 2024 1 1 0 0 2 0) ex_bad_start)) = 0 \<and>
   st_avg_processing_time (snd (get_queue_stats sample_lib (clock 2024 1 1 0 0 1 0)
       (clock 2024 1 1 0 0 2 0) ex_bad_start)) = 0"
proof -
  have h: "fromisoformat sample_lib (start_time ex_bad_start) = None"
    by (simp add: example_defs sample_defs)
  have p: "processed_count ex_bad_start = 3" by (simp add: example_defs)
  from get_queue_stats_bad_start_time[OF h, of "clock 2024 1 1 0 0 1 0" "clock 2024 1 1 0 0 2 0"] p
  show ?thesis by blast
qed

end
